theory Spec2Isabelle
  imports Main "HOL-Library.Word"
begin

section \<open>LibDS \<open>Core/Protocol.h\<close>: the packet counters of the protocol base class\<close>

text \<open>
  The class \<open>Protocol\<close> has eight private \<open>int\<close> members (the packet counters), a set
  of virtual methods that a protocol variant (for instance \<open>FRC_2015\<close>) may override,
  and seven non-virtual methods that wrap the virtual encoders and decoders and keep
  the counters: \<open>generateFMSPacket\<close>, \<open>generateRadioPacket\<close>, \<open>generateRobotPacket\<close>,
  \<open>readFMSPacket\<close>, \<open>readRadioPacket\<close>, \<open>readRobotPacket\<close> and \<open>resetLossCounter\<close>.

  The embedding passes the state explicitly. A method that mutates members and returns
  a value becomes a function from the state to the pair (returned value, new state).
\<close>

subsection \<open>Types the header uses and does not declare\<close>

text \<open>\<open>QByteArray\<close>: a sequence of bytes. \<open>QString\<close> is \<^typ>\<open>string\<close>.\<close>

type_synonym QByteArray = "8 word list"

text \<open>
  Modelled from the spec: \<open>DS::CommStatus\<close>, declared in \<open>DriverStation.h\<close>, of which
  the header uses \<open>DS::kCommsWorking\<close>. The spec gives the two values Failing and Working.
\<close>

datatype CommStatus = kCommsFailing | kCommsWorking

text \<open>
  Modelled from the spec: \<open>DS::SocketType\<close>, declared in \<open>DriverStation.h\<close>, of which
  the header uses \<open>DS::kSocketTypeUDP\<close>. The spec gives the two values UDP and TCP.
\<close>

datatype SocketType = kSocketTypeUDP | kSocketTypeTCP

text \<open>
  Modelled from the spec: the part of the singleton \<open>DS_Config\<close> (\<open>Core/DS_Config.h\<close>)
  that \<open>Protocol\<close>'s wrappers touch, namely the communication status of each peer,
  its three setters, and \<open>isConnectedToRobot\<close> (the robot is marked connected when its
  status is Working).
\<close>

record DS_Config =
  fmsCommStatus :: CommStatus
  radioCommStatus :: CommStatus
  robotCommStatus :: CommStatus

definition updateFMSCommStatus :: "CommStatus \<Rightarrow> DS_Config \<Rightarrow> DS_Config" where
  "updateFMSCommStatus st c = c\<lparr>fmsCommStatus := st\<rparr>"

definition updateRadioCommStatus :: "CommStatus \<Rightarrow> DS_Config \<Rightarrow> DS_Config" where
  "updateRadioCommStatus st c = c\<lparr>radioCommStatus := st\<rparr>"

definition updateRobotCommStatus :: "CommStatus \<Rightarrow> DS_Config \<Rightarrow> DS_Config" where
  "updateRobotCommStatus st c = c\<lparr>robotCommStatus := st\<rparr>"

definition isConnectedToRobot :: "DS_Config \<Rightarrow> bool" where
  "isConnectedToRobot c = (robotCommStatus c = kCommsWorking)"

subsection \<open>The state\<close>

text \<open>
  The eight private members keep their names. \<open>config\<close> is what \<open>config()\<close> returns,
  the \<open>DS_Config\<close> singleton. \<open>ext\<close> stands for everything else an overriding method may
  read and write: the data members of the variant (the three flags of \<open>FRC_2015\<close>, say)
  and the remaining Driver Station properties (voltage, control mode, team number).

  The counters are C++ \<open>int\<close>s, 32 bits wide, that start at 0 and change by \<open>++\<close> and
  by assignment of 0 only. They are 32-bit words here, read as signed numbers by \<open>sint\<close>:
  \<open>+ 1\<close> on a word wraps around, so that \<open>++\<close> on \<open>2 ^ 31 - 1\<close>, the largest \<open>int\<close>, gives
  \<open>- (2 ^ 31)\<close>, as two's-complement hardware does. (C++ itself leaves signed overflow
  undefined.)
\<close>

type_synonym int32 = "32 word"

record 'x Protocol =
  m_sentFmsPackets :: int32
  m_sentRadioPackets :: int32
  m_sentRobotPackets :: int32
  m_receivedFmsPackets :: int32
  m_receivedRadioPackets :: int32
  m_receivedRobotPackets :: int32
  m_recvRobotPacketsSinceConnect :: int32
  m_sentRobotPacketsSinceConnect :: int32
  config :: DS_Config
  ext :: 'x

text \<open>The constructor: every counter is 0.\<close>

definition Protocol_init :: "DS_Config \<Rightarrow> 'x \<Rightarrow> 'x Protocol" where
  "Protocol_init c x =
     \<lparr>m_sentFmsPackets = 0,
      m_sentRadioPackets = 0,
      m_sentRobotPackets = 0,
      m_receivedFmsPackets = 0,
      m_receivedRadioPackets = 0,
      m_receivedRobotPackets = 0,
      m_recvRobotPacketsSinceConnect = 0,
      m_sentRobotPacketsSinceConnect = 0,
      config = c,
      ext = x\<rparr>"

subsection \<open>The virtual methods\<close>

text \<open>
  A protocol variant is the table of its virtual methods. The transport parameters
  take no argument and are constants of the variant (no arithmetic is done on them, so
  they are plain integers). An encoder (\<open>get...Packet\<close>) reads
  the configuration and may change \<open>ext\<close>; a decoder (\<open>interpret...Packet\<close>) receives the
  bytes as well and returns whether it accepts them. The counters are private to
  \<open>Protocol\<close>, so no override reaches them. Writing the communication status is the
  wrappers' part (a decoder applies what it extracts from the packet to the other
  properties, the wrapper then marks the peer as working), so an encoder or a decoder
  reads the configuration and writes \<open>ext\<close> only.

  Left out, since no wrapper calls them: \<open>nominalBatteryVOltage\<close> and
  \<open>nominalBatteryAmperage\<close> (floating point), \<open>radioAddress\<close> and \<open>robotAddress\<close> (they
  call \<open>DS::getStaticIP\<close>, which the header does not define), and the five hooks with
  an empty body (\<open>rebootRobot\<close>, \<open>restartRobotCode\<close>, \<open>on...WatchdogExpired\<close>).
\<close>

record 'x Protocol_virtual =
  name :: string
  fmsFrequency :: int
  radioFrequency :: int
  robotFrequency :: int
  maxJoystickCount :: int
  maxPOVCount :: int
  maxAxisCount :: int
  maxButtonCount :: int
  fmsInputPort :: int
  fmsOutputPort :: int
  radioInputPort :: int
  robotInputPort :: int
  radioOutputPort :: int
  robotOutputPort :: int
  netconsoleInputPort :: int
  netconsoleOutputPort :: int
  fmsSocketType :: SocketType
  radioSocketType :: SocketType
  robotSocketType :: SocketType
  fmsAddress :: string
  getFMSPacket :: "DS_Config \<Rightarrow> 'x \<Rightarrow> QByteArray \<times> 'x"
  getRadioPacket :: "DS_Config \<Rightarrow> 'x \<Rightarrow> QByteArray \<times> 'x"
  getRobotPacket :: "DS_Config \<Rightarrow> 'x \<Rightarrow> QByteArray \<times> 'x"
  interpretFMSPacket :: "QByteArray \<Rightarrow> DS_Config \<Rightarrow> 'x \<Rightarrow> bool \<times> 'x"
  interpretRadioPacket :: "QByteArray \<Rightarrow> DS_Config \<Rightarrow> 'x \<Rightarrow> bool \<times> 'x"
  interpretRobotPacket :: "QByteArray \<Rightarrow> DS_Config \<Rightarrow> 'x \<Rightarrow> bool \<times> 'x"

text \<open>
  The bodies the base class gives to its virtual methods: what a variant that overrides
  nothing has. The macro \<open>DS_DISABLED_PORT\<close> is defined outside the header and is a
  parameter here.
\<close>

definition Protocol_base :: "int \<Rightarrow> 'x Protocol_virtual" where
  "Protocol_base DS_DISABLED_PORT =
     \<lparr>name = ''Generic Protocol'',
      fmsFrequency = 1,
      radioFrequency = 1,
      robotFrequency = 1,
      maxJoystickCount = 6,
      maxPOVCount = 12,
      maxAxisCount = 12,
      maxButtonCount = 24,
      fmsInputPort = DS_DISABLED_PORT,
      fmsOutputPort = DS_DISABLED_PORT,
      radioInputPort = DS_DISABLED_PORT,
      robotInputPort = DS_DISABLED_PORT,
      radioOutputPort = DS_DISABLED_PORT,
      robotOutputPort = DS_DISABLED_PORT,
      netconsoleInputPort = DS_DISABLED_PORT,
      netconsoleOutputPort = DS_DISABLED_PORT,
      fmsSocketType = kSocketTypeUDP,
      radioSocketType = kSocketTypeUDP,
      robotSocketType = kSocketTypeUDP,
      fmsAddress = [],
      getFMSPacket = (\<lambda>c x. ([], x)),
      getRadioPacket = (\<lambda>c x. ([], x)),
      getRobotPacket = (\<lambda>c x. ([], x)),
      interpretFMSPacket = (\<lambda>data c x. (False, x)),
      interpretRadioPacket = (\<lambda>data c x. (False, x)),
      interpretRobotPacket = (\<lambda>data c x. (False, x))\<rparr>"

subsection \<open>The wrappers\<close>

definition generateFMSPacket :: "'x Protocol_virtual \<Rightarrow> 'x Protocol \<Rightarrow> QByteArray \<times> 'x Protocol" where
  "generateFMSPacket V s =
     (let s1 = s\<lparr>m_sentFmsPackets := m_sentFmsPackets s + 1\<rparr>
      in case getFMSPacket V (config s1) (ext s1) of
           (bytes, x) \<Rightarrow> (bytes, s1\<lparr>ext := x\<rparr>))"

definition generateRadioPacket :: "'x Protocol_virtual \<Rightarrow> 'x Protocol \<Rightarrow> QByteArray \<times> 'x Protocol" where
  "generateRadioPacket V s =
     (let s1 = s\<lparr>m_sentRadioPackets := m_sentRadioPackets s + 1\<rparr>
      in case getRadioPacket V (config s1) (ext s1) of
           (bytes, x) \<Rightarrow> (bytes, s1\<lparr>ext := x\<rparr>))"

definition generateRobotPacket :: "'x Protocol_virtual \<Rightarrow> 'x Protocol \<Rightarrow> QByteArray \<times> 'x Protocol" where
  "generateRobotPacket V s =
     (let s1 = s\<lparr>m_sentRobotPackets := m_sentRobotPackets s + 1\<rparr>;
          s2 = s1\<lparr>m_sentRobotPacketsSinceConnect := m_sentRobotPacketsSinceConnect s1 + 1\<rparr>
      in case getRobotPacket V (config s2) (ext s2) of
           (bytes, x) \<Rightarrow> (bytes, s2\<lparr>ext := x\<rparr>))"

definition resetLossCounter :: "'x Protocol \<Rightarrow> 'x Protocol" where
  "resetLossCounter s =
     s\<lparr>m_recvRobotPacketsSinceConnect := 0, m_sentRobotPacketsSinceConnect := 0\<rparr>"

definition readFMSPacket :: "'x Protocol_virtual \<Rightarrow> QByteArray \<Rightarrow> 'x Protocol \<Rightarrow> bool \<times> 'x Protocol" where
  "readFMSPacket V data s =
     (let s1 = s\<lparr>m_receivedFmsPackets := m_receivedFmsPackets s + 1\<rparr>
      in case interpretFMSPacket V data (config s1) (ext s1) of
           (ok, x) \<Rightarrow>
             (let s2 = s1\<lparr>ext := x\<rparr>
              in if ok
                 then (True, s2\<lparr>config := updateFMSCommStatus kCommsWorking (config s2)\<rparr>)
                 else (False, s2)))"

definition readRadioPacket :: "'x Protocol_virtual \<Rightarrow> QByteArray \<Rightarrow> 'x Protocol \<Rightarrow> bool \<times> 'x Protocol" where
  "readRadioPacket V data s =
     (let s1 = s\<lparr>m_receivedRadioPackets := m_receivedRadioPackets s + 1\<rparr>
      in case interpretRadioPacket V data (config s1) (ext s1) of
           (ok, x) \<Rightarrow>
             (let s2 = s1\<lparr>ext := x\<rparr>
              in if ok
                 then (True, s2\<lparr>config := updateRadioCommStatus kCommsWorking (config s2)\<rparr>)
                 else (False, s2)))"

definition readRobotPacket :: "'x Protocol_virtual \<Rightarrow> QByteArray \<Rightarrow> 'x Protocol \<Rightarrow> bool \<times> 'x Protocol" where
  "readRobotPacket V data s =
     (let s1 = s\<lparr>m_receivedRobotPackets := m_receivedRobotPackets s + 1\<rparr>;
          s2 = s1\<lparr>m_recvRobotPacketsSinceConnect := m_recvRobotPacketsSinceConnect s1 + 1\<rparr>
      in case interpretRobotPacket V data (config s2) (ext s2) of
           (ok, x) \<Rightarrow>
             (let s3 = s2\<lparr>ext := x\<rparr>
              in if ok
                 then (let s4 = (if \<not> isConnectedToRobot (config s3)
                                 then resetLossCounter s3 else s3)
                       in (True, s4\<lparr>config := updateRobotCommStatus kCommsWorking (config s4)\<rparr>))
                 else (False, s3)))"

subsection \<open>The accessors\<close>

definition sentFMSPackets :: "'x Protocol \<Rightarrow> int32" where
  "sentFMSPackets s = m_sentFmsPackets s"

definition sentRadioPackets :: "'x Protocol \<Rightarrow> int32" where
  "sentRadioPackets s = m_sentRadioPackets s"

definition sentRobotPackets :: "'x Protocol \<Rightarrow> int32" where
  "sentRobotPackets s = m_sentRobotPackets s"

text \<open>The next two return \<open>m_receivedRobotPackets\<close> in the source, and so do they here.\<close>

definition receivedFMSPackets :: "'x Protocol \<Rightarrow> int32" where
  "receivedFMSPackets s = m_receivedRobotPackets s"

definition receivedRadioPackets :: "'x Protocol \<Rightarrow> int32" where
  "receivedRadioPackets s = m_receivedRobotPackets s"

definition receivedRobotPackets :: "'x Protocol \<Rightarrow> int32" where
  "receivedRobotPackets s = m_receivedRobotPackets s"

definition recvRobotPacketsSinceConnect :: "'x Protocol \<Rightarrow> int32" where
  "recvRobotPacketsSinceConnect s = m_recvRobotPacketsSinceConnect s"

definition sentRobotPacketsSinceConnect :: "'x Protocol \<Rightarrow> int32" where
  "sentRobotPacketsSinceConnect s = m_sentRobotPacketsSinceConnect s"

subsection \<open>Sequences of calls\<close>

text \<open>
  A run is a list of calls on one \<open>Protocol\<close> object, each made on the state the
  previous one left. \<open>ConfigWrite\<close> is not a method of \<open>Protocol\<close>: it stands for the rest
  of the Driver Station writing the \<open>DS_Config\<close> singleton between two calls (a watchdog
  marking a peer as failing, for instance), which is how a connected robot becomes
  disconnected again. The reachable states are those \<open>run V cs (Protocol_init c x)\<close>.
\<close>

datatype call =
    GenerateFMSPacket
  | GenerateRadioPacket
  | GenerateRobotPacket
  | ReadFMSPacket QByteArray
  | ReadRadioPacket QByteArray
  | ReadRobotPacket QByteArray
  | ResetLossCounter
  | ConfigWrite DS_Config

fun do_call :: "'x Protocol_virtual \<Rightarrow> call \<Rightarrow> 'x Protocol \<Rightarrow> 'x Protocol" where
  "do_call V GenerateFMSPacket s = snd (generateFMSPacket V s)"
| "do_call V GenerateRadioPacket s = snd (generateRadioPacket V s)"
| "do_call V GenerateRobotPacket s = snd (generateRobotPacket V s)"
| "do_call V (ReadFMSPacket data) s = snd (readFMSPacket V data s)"
| "do_call V (ReadRadioPacket data) s = snd (readRadioPacket V data s)"
| "do_call V (ReadRobotPacket data) s = snd (readRobotPacket V data s)"
| "do_call V ResetLossCounter s = resetLossCounter s"
| "do_call V (ConfigWrite c) s = s\<lparr>config := c\<rparr>"

definition run :: "'x Protocol_virtual \<Rightarrow> call list \<Rightarrow> 'x Protocol \<Rightarrow> 'x Protocol" where
  "run V cs s = fold (do_call V) cs s"

subsection \<open>Predicates on states\<close>

text \<open>Every counter, read as a signed number, lies between 0 and \<open>n\<close>.\<close>

definition counters_within :: "int \<Rightarrow> 'x Protocol \<Rightarrow> bool" where
  "counters_within n s =
     ((0 \<le> sint (m_sentFmsPackets s) \<and> sint (m_sentFmsPackets s) \<le> n)
      \<and> (0 \<le> sint (m_sentRadioPackets s) \<and> sint (m_sentRadioPackets s) \<le> n)
      \<and> (0 \<le> sint (m_sentRobotPackets s) \<and> sint (m_sentRobotPackets s) \<le> n)
      \<and> (0 \<le> sint (m_receivedFmsPackets s) \<and> sint (m_receivedFmsPackets s) \<le> n)
      \<and> (0 \<le> sint (m_receivedRadioPackets s) \<and> sint (m_receivedRadioPackets s) \<le> n)
      \<and> (0 \<le> sint (m_receivedRobotPackets s) \<and> sint (m_receivedRobotPackets s) \<le> n)
      \<and> (0 \<le> sint (m_recvRobotPacketsSinceConnect s)
          \<and> sint (m_recvRobotPacketsSinceConnect s) \<le> n)
      \<and> (0 \<le> sint (m_sentRobotPacketsSinceConnect s)
          \<and> sint (m_sentRobotPacketsSinceConnect s) \<le> n))"

text \<open>Each of the six session counters, read as a signed number, is at most \<open>n\<close>.\<close>

definition session_counters_le :: "int \<Rightarrow> 'x Protocol \<Rightarrow> bool" where
  "session_counters_le n s =
     (sint (m_sentFmsPackets s) \<le> n
      \<and> sint (m_sentRadioPackets s) \<le> n
      \<and> sint (m_sentRobotPackets s) \<le> n
      \<and> sint (m_receivedFmsPackets s) \<le> n
      \<and> sint (m_receivedRadioPackets s) \<le> n
      \<and> sint (m_receivedRobotPackets s) \<le> n)"

text \<open>
  The since-connect pair of the robot peer lies between 0 and the session counters of
  the robot peer.
\<close>

definition window_within_session :: "'x Protocol \<Rightarrow> bool" where
  "window_within_session s =
     (0 \<le> sint (m_sentRobotPacketsSinceConnect s)
      \<and> sint (m_sentRobotPacketsSinceConnect s) \<le> sint (m_sentRobotPackets s)
      \<and> 0 \<le> sint (m_recvRobotPacketsSinceConnect s)
      \<and> sint (m_recvRobotPacketsSinceConnect s) \<le> sint (m_receivedRobotPackets s))"

subsection \<open>Example inputs\<close>

text \<open>
  Two inputs for the closed theorems below: a configuration in which no peer is connected,
  and a variant that overrides the three decoders of the base class so that each
  accepts exactly the packets that are not empty (a minimum-length check, as decoders
  make). It has no members of its own, so \<open>ext\<close> is \<^typ>\<open>unit\<close>.
\<close>

definition no_peer_connected :: DS_Config where
  "no_peer_connected =
     \<lparr>fmsCommStatus = kCommsFailing,
      radioCommStatus = kCommsFailing,
      robotCommStatus = kCommsFailing\<rparr>"

definition nonempty_accepting :: "unit Protocol_virtual" where
  "nonempty_accepting =
     (Protocol_base 0)
       \<lparr>interpretFMSPacket := (\<lambda>data c x. (data \<noteq> [], x)),
        interpretRadioPacket := (\<lambda>data c x. (data \<noteq> [], x)),
        interpretRobotPacket := (\<lambda>data c x. (data \<noteq> [], x))\<rparr>"

section \<open>Properties\<close>

lemmas wrapper_defs =
  generateFMSPacket_def generateRadioPacket_def generateRobotPacket_def
  readFMSPacket_def readRadioPacket_def readRobotPacket_def resetLossCounter_def
  updateFMSCommStatus_def updateRadioCommStatus_def updateRobotCommStatus_def
  isConnectedToRobot_def

lemmas example_defs =
  no_peer_connected_def nonempty_accepting_def Protocol_base_def Protocol_init_def

subsection \<open>Runs\<close>

lemma run_Nil: "run V [] s = s"
  by (simp add: run_def)

lemma run_Cons: "run V (c # cs) s = run V cs (do_call V c s)"
  by (simp add: run_def)

subsection \<open>Incrementing a 32-bit counter\<close>

text \<open>Below the largest \<open>int\<close> the increment is the mathematical one.\<close>

lemma sint_inc:
  fixes w :: int32
  assumes "sint w < 2147483647"
  shows "sint (w + 1) = sint w + 1"
proof -
  have lo: "- (2 ^ 31) \<le> sint w + 1"
    using sint_ge [of w] by simp
  have hi: "sint w + 1 < 2 ^ 31"
    using assms by simp
  have "sint (w + 1) = signed_take_bit 31 (sint w + 1)"
    by (simp add: sint_word_ariths)
  also have "\<dots> = sint w + 1"
    using lo hi by (rule signed_take_bit_int_eq_self)
  finally show ?thesis .
qed

lemma sint_add_nat:
  fixes w :: int32
  assumes "sint w + int n \<le> 2147483647"
  shows "sint (w + of_nat n) = sint w + int n"
  using assms
proof (induction n)
  case 0
  then show ?case by simp
next
  case (Suc n)
  then have "sint (w + of_nat n) = sint w + int n" by simp
  moreover from Suc.prems have "sint w + int n < 2147483647" by simp
  ultimately have "sint (w + of_nat n + 1) = sint w + int n + 1"
    by (simp add: sint_inc)
  then show ?case by (simp add: ac_simps)
qed

subsection \<open>What one call does to the counters\<close>

lemma generate_counts:
  "m_sentFmsPackets (snd (generateFMSPacket V s)) = m_sentFmsPackets s + 1"
  "m_sentRadioPackets (snd (generateRadioPacket V s)) = m_sentRadioPackets s + 1"
  "m_sentRobotPackets (snd (generateRobotPacket V s)) = m_sentRobotPackets s + 1"
  "m_sentRobotPacketsSinceConnect (snd (generateRobotPacket V s))
     = m_sentRobotPacketsSinceConnect s + 1"
  by (simp_all add: wrapper_defs Let_def split: prod.splits)

lemma read_counts:
  "m_receivedFmsPackets (snd (readFMSPacket V data s)) = m_receivedFmsPackets s + 1"
  "m_receivedRadioPackets (snd (readRadioPacket V data s)) = m_receivedRadioPackets s + 1"
  "m_receivedRobotPackets (snd (readRobotPacket V data s)) = m_receivedRobotPackets s + 1"
  by (simp_all add: wrapper_defs Let_def split: prod.splits)

lemma base_read_since_connect:
  "m_recvRobotPacketsSinceConnect (snd (readRobotPacket (Protocol_base d) data s))
     = m_recvRobotPacketsSinceConnect s + 1"
  by (simp add: Protocol_base_def readRobotPacket_def)

text \<open>
  A session counter that is below the largest \<open>int\<close> is not lower after a call than
  before it.
\<close>

lemma session_counters_mono:
  "sint (m_sentFmsPackets s) < 2147483647 \<Longrightarrow>
     sint (m_sentFmsPackets s) \<le> sint (m_sentFmsPackets (do_call V c s))"
  "sint (m_sentRadioPackets s) < 2147483647 \<Longrightarrow>
     sint (m_sentRadioPackets s) \<le> sint (m_sentRadioPackets (do_call V c s))"
  "sint (m_sentRobotPackets s) < 2147483647 \<Longrightarrow>
     sint (m_sentRobotPackets s) \<le> sint (m_sentRobotPackets (do_call V c s))"
  "sint (m_receivedFmsPackets s) < 2147483647 \<Longrightarrow>
     sint (m_receivedFmsPackets s) \<le> sint (m_receivedFmsPackets (do_call V c s))"
  "sint (m_receivedRadioPackets s) < 2147483647 \<Longrightarrow>
     sint (m_receivedRadioPackets s) \<le> sint (m_receivedRadioPackets (do_call V c s))"
  "sint (m_receivedRobotPackets s) < 2147483647 \<Longrightarrow>
     sint (m_receivedRobotPackets s) \<le> sint (m_receivedRobotPackets (do_call V c s))"
  by (cases c; simp add: wrapper_defs Let_def sint_inc split: prod.splits)+

subsection \<open>What \<open>n\<close> calls do to the counters, modulo \<open>2 ^ 32\<close>\<close>

lemma sentFms_after_generates:
  "m_sentFmsPackets (run V (replicate n GenerateFMSPacket) s)
     = m_sentFmsPackets s + of_nat n"
  by (induction n arbitrary: s) (simp_all add: run_Nil run_Cons generate_counts)

lemma sentRadio_after_generates:
  "m_sentRadioPackets (run V (replicate n GenerateRadioPacket) s)
     = m_sentRadioPackets s + of_nat n"
  by (induction n arbitrary: s) (simp_all add: run_Nil run_Cons generate_counts)

lemma sentRobot_after_generates:
  "m_sentRobotPackets (run V (replicate n GenerateRobotPacket) s)
     = m_sentRobotPackets s + of_nat n"
  by (induction n arbitrary: s) (simp_all add: run_Nil run_Cons generate_counts)

lemma sentSinceConnect_after_generates:
  "m_sentRobotPacketsSinceConnect (run V (replicate n GenerateRobotPacket) s)
     = m_sentRobotPacketsSinceConnect s + of_nat n"
  by (induction n arbitrary: s) (simp_all add: run_Nil run_Cons generate_counts)

lemma receivedFms_after_reads:
  "m_receivedFmsPackets (run V (map ReadFMSPacket ds) s)
     = m_receivedFmsPackets s + of_nat (length ds)"
  by (induction ds arbitrary: s) (simp_all add: run_Nil run_Cons read_counts)

lemma receivedRadio_after_reads:
  "m_receivedRadioPackets (run V (map ReadRadioPacket ds) s)
     = m_receivedRadioPackets s + of_nat (length ds)"
  by (induction ds arbitrary: s) (simp_all add: run_Nil run_Cons read_counts)

lemma receivedRobot_after_reads:
  "m_receivedRobotPackets (run V (map ReadRobotPacket ds) s)
     = m_receivedRobotPackets s + of_nat (length ds)"
  by (induction ds arbitrary: s) (simp_all add: run_Nil run_Cons read_counts)

lemma recvSinceConnect_after_base_reads:
  "m_recvRobotPacketsSinceConnect
     (run (Protocol_base d) (replicate n (ReadRobotPacket data)) s)
     = m_recvRobotPacketsSinceConnect s + of_nat n"
  by (induction n arbitrary: s) (simp_all add: run_Nil run_Cons base_read_since_connect)

subsection \<open>Runs of fewer than \<open>2 ^ 31\<close> calls\<close>

text \<open>
  Each call raises each counter by at most one. So on a new object no counter reaches
  the largest \<open>int\<close> before the call number \<open>2 ^ 31 - 1\<close>, and up to there no \<open>++\<close> wraps.
\<close>

lemma counters_within_step:
  "counters_within n s \<Longrightarrow> n < 2147483647 \<Longrightarrow> counters_within (n + 1) (do_call V c s)"
  by (cases c)
     (auto simp: counters_within_def wrapper_defs Let_def sint_inc split: prod.splits)

lemma window_within_session_step:
  "window_within_session s \<Longrightarrow> counters_within n s \<Longrightarrow> n < 2147483647 \<Longrightarrow>
   window_within_session (do_call V c s)"
  by (cases c)
     (auto simp: window_within_session_def counters_within_def wrapper_defs Let_def sint_inc
           split: prod.splits)

lemma bounded_run:
  "counters_within n s \<Longrightarrow> window_within_session s \<Longrightarrow>
   n + int (length cs) \<le> 2147483647 \<Longrightarrow>
   counters_within (n + int (length cs)) (run V cs s) \<and> window_within_session (run V cs s)"
proof (induction cs arbitrary: n s)
  case Nil
  then show ?case by (simp add: run_Nil)
next
  case (Cons c cs)
  from Cons.prems(3) have n: "n < 2147483647" by simp
  from Cons.prems(1) n have 1: "counters_within (n + 1) (do_call V c s)"
    by (rule counters_within_step)
  from Cons.prems(2) Cons.prems(1) n have 2: "window_within_session (do_call V c s)"
    by (rule window_within_session_step)
  from Cons.prems(3) have 3: "n + 1 + int (length cs) \<le> 2147483647" by simp
  from 1 2 3
  have "counters_within (n + 1 + int (length cs)) (run V cs (do_call V c s))
        \<and> window_within_session (run V cs (do_call V c s))"
    by (rule Cons.IH)
  then show ?case by (simp add: run_Cons add.assoc)
qed

lemma counters_within_init: "counters_within 0 (Protocol_init c x)"
  by (simp add: counters_within_def Protocol_init_def)

lemma window_within_session_init: "window_within_session (Protocol_init c x)"
  by (simp add: window_within_session_def Protocol_init_def)

lemma bounded_run_init:
  assumes "length cs < 2 ^ 31"
  shows "counters_within (int (length cs)) (run V cs (Protocol_init c x))
         \<and> window_within_session (run V cs (Protocol_init c x))"
proof -
  from assms have "0 + int (length cs) \<le> 2147483647" by simp
  with counters_within_init window_within_session_init
  have "counters_within (0 + int (length cs)) (run V cs (Protocol_init c x))
        \<and> window_within_session (run V cs (Protocol_init c x))"
    by (rule bounded_run)
  then show ?thesis by simp
qed

section \<open>The claims\<close>

text \<open>
  C1, as the code has it. When the robot is not marked connected and the variant's
  decoder accepts the bytes, \<open>readRobotPacket\<close> returns true, counts the packet in
  \<open>m_receivedRobotPackets\<close>, marks the robot connected, and leaves the since-connect pair
  at (0, 0): the reset runs after the increment, so \<open>recvRobotSinceConnect\<close> is 0 when
  the call returns, and the packet that opens the window is not counted in it.
\<close>

theorem reconnect_resets_window:
  assumes "\<not> isConnectedToRobot (config s)"
    and "fst (interpretRobotPacket V data (config s) (ext s))"
  shows "fst (readRobotPacket V data s)
   \<and> m_recvRobotPacketsSinceConnect (snd (readRobotPacket V data s)) = 0
   \<and> m_sentRobotPacketsSinceConnect (snd (readRobotPacket V data s)) = 0
   \<and> m_receivedRobotPackets (snd (readRobotPacket V data s)) = m_receivedRobotPackets s + 1
   \<and> isConnectedToRobot (config (snd (readRobotPacket V data s)))"
proof (cases "interpretRobotPacket V data (config s) (ext s)")
  case (Pair ok x)
  with assms(2) have "ok" by simp
  with Pair assms(1) show ?thesis
    by (simp add: wrapper_defs Let_def)
qed

text \<open>
  C1, the theorem at an input: a new object, no peer connected, and a packet of one byte
  read by the variant that accepts non-empty packets.
\<close>

theorem reconnect_resets_window_witness:
  "\<not> isConnectedToRobot (config (Protocol_init no_peer_connected ()))
   \<and> fst (interpretRobotPacket nonempty_accepting [1]
            (config (Protocol_init no_peer_connected ()))
            (ext (Protocol_init no_peer_connected ())))
   \<and> fst (readRobotPacket nonempty_accepting [1] (Protocol_init no_peer_connected ()))
   \<and> m_recvRobotPacketsSinceConnect
       (snd (readRobotPacket nonempty_accepting [1] (Protocol_init no_peer_connected ()))) = 0
   \<and> m_receivedRobotPackets
       (snd (readRobotPacket nonempty_accepting [1] (Protocol_init no_peer_connected ()))) = 1"
proof -
  have h1: "\<not> isConnectedToRobot (config (Protocol_init no_peer_connected ()))"
    by (simp add: example_defs isConnectedToRobot_def)
  have h2: "fst (interpretRobotPacket nonempty_accepting [1]
                   (config (Protocol_init no_peer_connected ()))
                   (ext (Protocol_init no_peer_connected ())))"
    by (simp add: example_defs)
  have h3: "m_receivedRobotPackets (Protocol_init no_peer_connected ()) = 0"
    by (simp add: example_defs)
  show ?thesis
    using h1 h2 h3 reconnect_resets_window [OF h1 h2] by simp
qed

text \<open>
  C1 as stated fails. After two calls of \<open>generateRobotPacket\<close> on a new object, with the
  robot not connected, an accepted packet leaves \<open>recvRobotSinceConnect\<close> at 0, not at 1.
\<close>

theorem reconnect_packet_not_counted:
  "\<not> isConnectedToRobot
       (config (run nonempty_accepting [GenerateRobotPacket, GenerateRobotPacket]
                  (Protocol_init no_peer_connected ())))
   \<and> fst (readRobotPacket nonempty_accepting [1]
            (run nonempty_accepting [GenerateRobotPacket, GenerateRobotPacket]
               (Protocol_init no_peer_connected ())))
   \<and> m_recvRobotPacketsSinceConnect
       (snd (readRobotPacket nonempty_accepting [1]
               (run nonempty_accepting [GenerateRobotPacket, GenerateRobotPacket]
                  (Protocol_init no_peer_connected ())))) = 0
   \<and> m_recvRobotPacketsSinceConnect
       (snd (readRobotPacket nonempty_accepting [1]
               (run nonempty_accepting [GenerateRobotPacket, GenerateRobotPacket]
                  (Protocol_init no_peer_connected ())))) \<noteq> 1"
  by (simp add: run_def example_defs wrapper_defs)

text \<open>
  C2. The accessors \<open>receivedFMSPackets\<close> and \<open>receivedRadioPackets\<close> return the robot
  peer's counter. After one \<open>readFMSPacket\<close> on a new object the FMS counter is 1 and
  \<open>receivedFMSPackets\<close> returns 0; the same for the radio; and after one
  \<open>readRobotPacket\<close>, with no packet read from the FMS or the radio, both return 1.
\<close>

theorem received_accessors_read_robot_counter:
  "m_receivedFmsPackets
     (run (Protocol_base 0) [ReadFMSPacket []] (Protocol_init no_peer_connected ())) = 1
   \<and> receivedFMSPackets
     (run (Protocol_base 0) [ReadFMSPacket []] (Protocol_init no_peer_connected ())) = 0
   \<and> m_receivedRadioPackets
     (run (Protocol_base 0) [ReadRadioPacket []] (Protocol_init no_peer_connected ())) = 1
   \<and> receivedRadioPackets
     (run (Protocol_base 0) [ReadRadioPacket []] (Protocol_init no_peer_connected ())) = 0
   \<and> receivedFMSPackets
     (run (Protocol_base 0) [ReadRobotPacket []] (Protocol_init no_peer_connected ())) = 1
   \<and> receivedRadioPackets
     (run (Protocol_base 0) [ReadRobotPacket []] (Protocol_init no_peer_connected ())) = 1"
  by (simp add: run_def example_defs wrapper_defs receivedFMSPackets_def
        receivedRadioPackets_def)

text \<open>
  C3, as the code has it. In every state that fewer than \<open>2 ^ 31\<close> calls reach from
  construction, \<open>recvRobotSinceConnect\<close> and \<open>sentRobotSinceConnect\<close> are at least 0. (No
  order between the two is kept: a read raises the first and not the second. And a
  32-bit counter that was raised \<open>2 ^ 31\<close> times is negative.)
\<close>

theorem since_connect_nonneg:
  assumes "length cs < 2 ^ 31"
  shows "0 \<le> sint (m_recvRobotPacketsSinceConnect (run V cs (Protocol_init c x)))
   \<and> 0 \<le> sint (m_sentRobotPacketsSinceConnect (run V cs (Protocol_init c x)))"
  using bounded_run_init [OF assms, of V c x]
  by (simp add: counters_within_def)

text \<open>
  C3, the theorem at an input: a new object, no peer connected, and a run of three calls
  with the variant that accepts non-empty packets.
\<close>

theorem since_connect_nonneg_witness:
  "length [GenerateRobotPacket, ReadRobotPacket [], ReadRobotPacket [1]] < 2 ^ 31
   \<and> 0 \<le> sint (m_recvRobotPacketsSinceConnect
               (run nonempty_accepting
                  [GenerateRobotPacket, ReadRobotPacket [], ReadRobotPacket [1]]
                  (Protocol_init no_peer_connected ())))
   \<and> 0 \<le> sint (m_sentRobotPacketsSinceConnect
               (run nonempty_accepting
                  [GenerateRobotPacket, ReadRobotPacket [], ReadRobotPacket [1]]
                  (Protocol_init no_peer_connected ())))"
proof -
  have h: "length [GenerateRobotPacket, ReadRobotPacket [], ReadRobotPacket [1]] < 2 ^ 31"
    by simp
  show ?thesis
    using h since_connect_nonneg [OF h, of nonempty_accepting no_peer_connected "()"]
    by simp
qed

text \<open>
  C3 as stated fails. One \<open>readRobotPacket\<close> on a new object of the base class gives
  \<open>recvRobotSinceConnect = 1\<close> and \<open>sentRobotSinceConnect = 0\<close>. And after \<open>2 ^ 31\<close> calls of
  \<open>readRobotPacket\<close> on a new object of the base class \<open>recvRobotSinceConnect\<close> is
  \<open>- (2 ^ 31)\<close>.
\<close>

theorem loss_ratio_bound_counterexample:
  "sint (m_recvRobotPacketsSinceConnect
     (run (Protocol_base 0) [ReadRobotPacket []] (Protocol_init no_peer_connected ()))) = 1
   \<and> sint (m_sentRobotPacketsSinceConnect
     (run (Protocol_base 0) [ReadRobotPacket []] (Protocol_init no_peer_connected ()))) = 0
   \<and> \<not> (sint (m_recvRobotPacketsSinceConnect
          (run (Protocol_base 0) [ReadRobotPacket []] (Protocol_init no_peer_connected ())))
        \<le> sint (m_sentRobotPacketsSinceConnect
          (run (Protocol_base 0) [ReadRobotPacket []] (Protocol_init no_peer_connected ()))))
   \<and> sint (m_recvRobotPacketsSinceConnect
       (run (Protocol_base 0) (replicate 2147483648 (ReadRobotPacket []))
          (Protocol_init no_peer_connected ()))) = - 2147483648
   \<and> \<not> (0 \<le> sint (m_recvRobotPacketsSinceConnect
       (run (Protocol_base 0) (replicate 2147483648 (ReadRobotPacket []))
          (Protocol_init no_peer_connected ()))))"
proof -
  have one: "run (Protocol_base 0) [ReadRobotPacket []] (Protocol_init no_peer_connected ())
      = (Protocol_init no_peer_connected ())
          \<lparr>m_receivedRobotPackets := 1, m_recvRobotPacketsSinceConnect := 1\<rparr>"
    by (simp add: run_def example_defs wrapper_defs)
  have many: "m_recvRobotPacketsSinceConnect
       (run (Protocol_base 0) (replicate 2147483648 (ReadRobotPacket []))
          (Protocol_init no_peer_connected ()))
      = m_recvRobotPacketsSinceConnect (Protocol_init no_peer_connected ())
        + of_nat 2147483648"
    by (rule recvSinceConnect_after_base_reads)
  have init: "m_recvRobotPacketsSinceConnect (Protocol_init no_peer_connected ()) = 0"
    "m_sentRobotPacketsSinceConnect (Protocol_init no_peer_connected ()) = 0"
    by (simp_all add: Protocol_init_def)
  show ?thesis
    by (simp add: one many init)
qed

text \<open>
  C4, as the code has it. Every \<open>read...Packet\<close> call returns (no exception, no abort:
  the wrappers have no failing branch), and its result is true exactly when the
  variant's decoder accepts the bytes. It raises the matching received counter by one
  whether or not the decoder accepts. On success the peer's status is Working, on
  failure the configuration is as it was. For the robot peer
  \<open>recvRobotSinceConnect\<close> is raised by one as well, except when the decoder accepts
  while the robot is not marked connected: then the reset follows the increment and
  the counter is 0 after the call.
\<close>

theorem read_counts_and_status:
  "fst (readFMSPacket V data s) = fst (interpretFMSPacket V data (config s) (ext s))
   \<and> m_receivedFmsPackets (snd (readFMSPacket V data s)) = m_receivedFmsPackets s + 1
   \<and> config (snd (readFMSPacket V data s))
       = (if fst (interpretFMSPacket V data (config s) (ext s))
          then (config s)\<lparr>fmsCommStatus := kCommsWorking\<rparr> else config s)
   \<and> fst (readRadioPacket V data s) = fst (interpretRadioPacket V data (config s) (ext s))
   \<and> m_receivedRadioPackets (snd (readRadioPacket V data s)) = m_receivedRadioPackets s + 1
   \<and> config (snd (readRadioPacket V data s))
       = (if fst (interpretRadioPacket V data (config s) (ext s))
          then (config s)\<lparr>radioCommStatus := kCommsWorking\<rparr> else config s)
   \<and> fst (readRobotPacket V data s) = fst (interpretRobotPacket V data (config s) (ext s))
   \<and> m_receivedRobotPackets (snd (readRobotPacket V data s)) = m_receivedRobotPackets s + 1
   \<and> config (snd (readRobotPacket V data s))
       = (if fst (interpretRobotPacket V data (config s) (ext s))
          then (config s)\<lparr>robotCommStatus := kCommsWorking\<rparr> else config s)
   \<and> m_recvRobotPacketsSinceConnect (snd (readRobotPacket V data s))
       = (if fst (interpretRobotPacket V data (config s) (ext s))
             \<and> \<not> isConnectedToRobot (config s)
          then 0 else m_recvRobotPacketsSinceConnect s + 1)"
  by (simp add: wrapper_defs Let_def split: prod.splits)

text \<open>
  C4 as stated fails for \<open>recvRobotSinceConnect\<close>. On a new object with the robot not
  connected, a rejected packet raises it to 1; the accepted packet that follows does not
  raise it to 2 but leaves it at 0.
\<close>

theorem accepted_read_lowers_since_connect:
  "m_recvRobotPacketsSinceConnect
     (run nonempty_accepting [ReadRobotPacket []] (Protocol_init no_peer_connected ())) = 1
   \<and> fst (readRobotPacket nonempty_accepting [1]
            (run nonempty_accepting [ReadRobotPacket []] (Protocol_init no_peer_connected ())))
   \<and> m_recvRobotPacketsSinceConnect
       (snd (readRobotPacket nonempty_accepting [1]
               (run nonempty_accepting [ReadRobotPacket []]
                  (Protocol_init no_peer_connected ())))) = 0
   \<and> m_recvRobotPacketsSinceConnect
       (snd (readRobotPacket nonempty_accepting [1]
               (run nonempty_accepting [ReadRobotPacket []]
                  (Protocol_init no_peer_connected ()))))
     \<noteq> m_recvRobotPacketsSinceConnect
         (run nonempty_accepting [ReadRobotPacket []] (Protocol_init no_peer_connected ())) + 1"
  by (simp add: run_def example_defs wrapper_defs)

text \<open>
  C5, as the code has it. In every state that fewer than \<open>2 ^ 31\<close> calls reach from
  construction, whatever the variant and whatever the calls,
  \<open>sentRobotSinceConnect \<le> sentRobot\<close> and \<open>recvRobotSinceConnect \<le> recvRobot\<close>.
\<close>

theorem since_connect_le_session:
  assumes "length cs < 2 ^ 31"
  shows "sint (m_sentRobotPacketsSinceConnect (run V cs (Protocol_init c x)))
     \<le> sint (m_sentRobotPackets (run V cs (Protocol_init c x)))
   \<and> sint (m_recvRobotPacketsSinceConnect (run V cs (Protocol_init c x)))
     \<le> sint (m_receivedRobotPackets (run V cs (Protocol_init c x)))"
  using bounded_run_init [OF assms, of V c x]
  by (simp add: window_within_session_def)

text \<open>
  C5, the theorem at an input: a new object, no peer connected, and a run of four calls
  with the variant that accepts non-empty packets, the second of which resets the pair.
\<close>

theorem since_connect_le_session_witness:
  "length [GenerateRobotPacket, ReadRobotPacket [1], GenerateRobotPacket, ReadRobotPacket []]
     < 2 ^ 31
   \<and> sint (m_sentRobotPacketsSinceConnect
       (run nonempty_accepting
          [GenerateRobotPacket, ReadRobotPacket [1], GenerateRobotPacket, ReadRobotPacket []]
          (Protocol_init no_peer_connected ())))
     \<le> sint (m_sentRobotPackets
       (run nonempty_accepting
          [GenerateRobotPacket, ReadRobotPacket [1], GenerateRobotPacket, ReadRobotPacket []]
          (Protocol_init no_peer_connected ())))
   \<and> sint (m_recvRobotPacketsSinceConnect
       (run nonempty_accepting
          [GenerateRobotPacket, ReadRobotPacket [1], GenerateRobotPacket, ReadRobotPacket []]
          (Protocol_init no_peer_connected ())))
     \<le> sint (m_receivedRobotPackets
       (run nonempty_accepting
          [GenerateRobotPacket, ReadRobotPacket [1], GenerateRobotPacket, ReadRobotPacket []]
          (Protocol_init no_peer_connected ())))"
proof -
  have h: "length [GenerateRobotPacket, ReadRobotPacket [1], GenerateRobotPacket,
                   ReadRobotPacket []] < 2 ^ 31"
    by simp
  show ?thesis
    using h since_connect_le_session [OF h, of nonempty_accepting no_peer_connected "()"]
    by simp
qed

text \<open>
  C5 as stated fails. On a new object of the base class, one \<open>generateRobotPacket\<close>, then
  \<open>resetLossCounter\<close>, then \<open>2 ^ 31 - 1\<close> calls of \<open>generateRobotPacket\<close> give
  \<open>sentRobotSinceConnect = 2 ^ 31 - 1\<close> and \<open>sentRobot = - (2 ^ 31)\<close>: the session counter
  has wrapped and the since-connect counter has not.
\<close>

theorem session_counter_wraps_first:
  "sint (m_sentRobotPacketsSinceConnect
     (run (Protocol_base 0)
        (GenerateRobotPacket # ResetLossCounter # replicate 2147483647 GenerateRobotPacket)
        (Protocol_init no_peer_connected ()))) = 2147483647
   \<and> sint (m_sentRobotPackets
     (run (Protocol_base 0)
        (GenerateRobotPacket # ResetLossCounter # replicate 2147483647 GenerateRobotPacket)
        (Protocol_init no_peer_connected ()))) = - 2147483648
   \<and> \<not> (sint (m_sentRobotPacketsSinceConnect
     (run (Protocol_base 0)
        (GenerateRobotPacket # ResetLossCounter # replicate 2147483647 GenerateRobotPacket)
        (Protocol_init no_peer_connected ())))
     \<le> sint (m_sentRobotPackets
     (run (Protocol_base 0)
        (GenerateRobotPacket # ResetLossCounter # replicate 2147483647 GenerateRobotPacket)
        (Protocol_init no_peer_connected ()))))"
proof -
  have two: "do_call (Protocol_base 0) ResetLossCounter
        (do_call (Protocol_base 0) GenerateRobotPacket (Protocol_init no_peer_connected ()))
      = (Protocol_init no_peer_connected ())\<lparr>m_sentRobotPackets := 1\<rparr>"
    by (simp add: example_defs wrapper_defs)
  have since: "m_sentRobotPacketsSinceConnect
     (run (Protocol_base 0)
        (GenerateRobotPacket # ResetLossCounter # replicate 2147483647 GenerateRobotPacket)
        (Protocol_init no_peer_connected ())) = 0 + of_nat 2147483647"
    by (simp only: run_Cons sentSinceConnect_after_generates two)
       (simp add: Protocol_init_def)
  have session: "m_sentRobotPackets
     (run (Protocol_base 0)
        (GenerateRobotPacket # ResetLossCounter # replicate 2147483647 GenerateRobotPacket)
        (Protocol_init no_peer_connected ())) = 1 + of_nat 2147483647"
    by (simp only: run_Cons sentRobot_after_generates two)
       (simp add: Protocol_init_def)
  show ?thesis
    by (simp add: since session)
qed

text \<open>
  C6, as the code has it. For every \<open>n\<close> and each of the three peers: when the session
  counters are at most \<open>2 ^ 31 - 1 - n\<close>, \<open>n\<close> calls of the peer's generate operation
  raise its sent counter by exactly \<open>n\<close>, and reading a list of \<open>n\<close> packets with the
  peer's read operation raises its received counter by exactly \<open>n\<close>. A session counter
  that is below \<open>2 ^ 31 - 1\<close> is not lower after a call than before it, whatever the call.
\<close>

theorem counters_count_calls:
  assumes "session_counters_le (2147483647 - int n) s" and "length ds = n"
  shows "sint (m_sentFmsPackets (run V (replicate n GenerateFMSPacket) s))
       = sint (m_sentFmsPackets s) + int n
   \<and> sint (m_sentRadioPackets (run V (replicate n GenerateRadioPacket) s))
       = sint (m_sentRadioPackets s) + int n
   \<and> sint (m_sentRobotPackets (run V (replicate n GenerateRobotPacket) s))
       = sint (m_sentRobotPackets s) + int n
   \<and> sint (m_receivedFmsPackets (run V (map ReadFMSPacket ds) s))
       = sint (m_receivedFmsPackets s) + int n
   \<and> sint (m_receivedRadioPackets (run V (map ReadRadioPacket ds) s))
       = sint (m_receivedRadioPackets s) + int n
   \<and> sint (m_receivedRobotPackets (run V (map ReadRobotPacket ds) s))
       = sint (m_receivedRobotPackets s) + int n
   \<and> (sint (m_sentFmsPackets s) < 2147483647 \<longrightarrow>
        sint (m_sentFmsPackets s) \<le> sint (m_sentFmsPackets (do_call V c s)))
   \<and> (sint (m_sentRadioPackets s) < 2147483647 \<longrightarrow>
        sint (m_sentRadioPackets s) \<le> sint (m_sentRadioPackets (do_call V c s)))
   \<and> (sint (m_sentRobotPackets s) < 2147483647 \<longrightarrow>
        sint (m_sentRobotPackets s) \<le> sint (m_sentRobotPackets (do_call V c s)))
   \<and> (sint (m_receivedFmsPackets s) < 2147483647 \<longrightarrow>
        sint (m_receivedFmsPackets s) \<le> sint (m_receivedFmsPackets (do_call V c s)))
   \<and> (sint (m_receivedRadioPackets s) < 2147483647 \<longrightarrow>
        sint (m_receivedRadioPackets s) \<le> sint (m_receivedRadioPackets (do_call V c s)))
   \<and> (sint (m_receivedRobotPackets s) < 2147483647 \<longrightarrow>
        sint (m_receivedRobotPackets s) \<le> sint (m_receivedRobotPackets (do_call V c s)))"
proof -
  from assms(1) have room:
    "sint (m_sentFmsPackets s) + int n \<le> 2147483647"
    "sint (m_sentRadioPackets s) + int n \<le> 2147483647"
    "sint (m_sentRobotPackets s) + int n \<le> 2147483647"
    "sint (m_receivedFmsPackets s) + int n \<le> 2147483647"
    "sint (m_receivedRadioPackets s) + int n \<le> 2147483647"
    "sint (m_receivedRobotPackets s) + int n \<le> 2147483647"
    by (simp_all add: session_counters_le_def)
  have sent:
    "sint (m_sentFmsPackets (run V (replicate n GenerateFMSPacket) s))
       = sint (m_sentFmsPackets s) + int n"
    "sint (m_sentRadioPackets (run V (replicate n GenerateRadioPacket) s))
       = sint (m_sentRadioPackets s) + int n"
    "sint (m_sentRobotPackets (run V (replicate n GenerateRobotPacket) s))
       = sint (m_sentRobotPackets s) + int n"
    by (simp_all only: sentFms_after_generates sentRadio_after_generates
          sentRobot_after_generates sint_add_nat [OF room(1)] sint_add_nat [OF room(2)]
          sint_add_nat [OF room(3)])
  have received:
    "sint (m_receivedFmsPackets (run V (map ReadFMSPacket ds) s))
       = sint (m_receivedFmsPackets s) + int n"
    "sint (m_receivedRadioPackets (run V (map ReadRadioPacket ds) s))
       = sint (m_receivedRadioPackets s) + int n"
    "sint (m_receivedRobotPackets (run V (map ReadRobotPacket ds) s))
       = sint (m_receivedRobotPackets s) + int n"
    by (simp_all only: receivedFms_after_reads receivedRadio_after_reads
          receivedRobot_after_reads assms(2) sint_add_nat [OF room(4)]
          sint_add_nat [OF room(5)] sint_add_nat [OF room(6)])
  show ?thesis
    by (simp only: sent received simp_thms) (simp add: session_counters_mono)
qed

text \<open>
  C6, the theorem at an input: a new object, two calls of each generate operation, two
  packets read, and the call \<open>generateFMSPacket\<close> for the last part.
\<close>

theorem counters_count_calls_witness:
  "session_counters_le (2147483647 - int 2) (Protocol_init no_peer_connected ())
   \<and> length [[], [1 :: 8 word]] = 2
   \<and> sint (m_sentFmsPackets (run nonempty_accepting (replicate 2 GenerateFMSPacket)
             (Protocol_init no_peer_connected ()))) = 2
   \<and> sint (m_sentRobotPackets (run nonempty_accepting (replicate 2 GenerateRobotPacket)
             (Protocol_init no_peer_connected ()))) = 2
   \<and> sint (m_receivedFmsPackets (run nonempty_accepting (map ReadFMSPacket [[], [1]])
             (Protocol_init no_peer_connected ()))) = 2
   \<and> sint (m_receivedRobotPackets (run nonempty_accepting (map ReadRobotPacket [[], [1]])
             (Protocol_init no_peer_connected ()))) = 2
   \<and> sint (m_sentFmsPackets (Protocol_init no_peer_connected ())) < 2147483647
   \<and> sint (m_sentFmsPackets (Protocol_init no_peer_connected ()))
       \<le> sint (m_sentFmsPackets
                (do_call nonempty_accepting GenerateFMSPacket
                   (Protocol_init no_peer_connected ())))"
proof -
  have h1: "session_counters_le (2147483647 - int 2) (Protocol_init no_peer_connected ())"
    by (simp add: session_counters_le_def Protocol_init_def)
  have h2: "length [[], [1 :: 8 word]] = 2"
    by simp
  have z: "sint (m_sentFmsPackets (Protocol_init no_peer_connected ())) = 0"
    "sint (m_sentRobotPackets (Protocol_init no_peer_connected ())) = 0"
    "sint (m_receivedFmsPackets (Protocol_init no_peer_connected ())) = 0"
    "sint (m_receivedRobotPackets (Protocol_init no_peer_connected ())) = 0"
    by (simp_all add: Protocol_init_def)
  show ?thesis
    using h1 h2 z
      counters_count_calls [OF h1 h2, of nonempty_accepting GenerateFMSPacket]
    by simp
qed

text \<open>
  C6 as stated fails. On a new object of the base class \<open>2 ^ 31 - 1\<close> calls of
  \<open>generateFMSPacket\<close> bring \<open>sentFMS\<close> to \<open>2 ^ 31 - 1\<close>; the next call lowers it to
  \<open>- (2 ^ 31)\<close>, so that \<open>2 ^ 31\<close> calls have not raised it by \<open>2 ^ 31\<close>.
\<close>

theorem session_counter_wraps:
  "sint (m_sentFmsPackets
     (run (Protocol_base 0) (replicate 2147483647 GenerateFMSPacket)
        (Protocol_init no_peer_connected ()))) = 2147483647
   \<and> sint (m_sentFmsPackets
     (do_call (Protocol_base 0) GenerateFMSPacket
        (run (Protocol_base 0) (replicate 2147483647 GenerateFMSPacket)
           (Protocol_init no_peer_connected ())))) = - 2147483648
   \<and> sint (m_sentFmsPackets
     (run (Protocol_base 0) (replicate 2147483648 GenerateFMSPacket)
        (Protocol_init no_peer_connected ()))) = - 2147483648
   \<and> sint (m_sentFmsPackets
     (run (Protocol_base 0) (replicate 2147483648 GenerateFMSPacket)
        (Protocol_init no_peer_connected ())))
     \<noteq> sint (m_sentFmsPackets (Protocol_init no_peer_connected ())) + 2147483648"
proof -
  have init: "m_sentFmsPackets (Protocol_init no_peer_connected ()) = 0"
    by (simp add: Protocol_init_def)
  have a: "m_sentFmsPackets
     (run (Protocol_base 0) (replicate 2147483647 GenerateFMSPacket)
        (Protocol_init no_peer_connected ())) = 0 + of_nat 2147483647"
    by (simp only: sentFms_after_generates init)
  have b: "m_sentFmsPackets
     (do_call (Protocol_base 0) GenerateFMSPacket
        (run (Protocol_base 0) (replicate 2147483647 GenerateFMSPacket)
           (Protocol_init no_peer_connected ()))) = 0 + of_nat 2147483647 + 1"
    by (simp only: do_call.simps generate_counts a)
  have c: "m_sentFmsPackets
     (run (Protocol_base 0) (replicate 2147483648 GenerateFMSPacket)
        (Protocol_init no_peer_connected ())) = 0 + of_nat 2147483648"
    by (simp only: sentFms_after_generates init)
  show ?thesis
    by (simp only: a b c init) simp
qed

text \<open>
  C7. With the bodies of the base class, that is for a variant that overrides none of
  them: every input and output port is the disabled-port sentinel, every send frequency
  is 1, every socket type is UDP, the FMS address is the empty string, and each of the
  three generate operations returns the empty byte sequence.
\<close>

theorem unconfigured_peer_defaults:
  "fmsInputPort (Protocol_base d) = d \<and> fmsOutputPort (Protocol_base d) = d
   \<and> radioInputPort (Protocol_base d) = d \<and> radioOutputPort (Protocol_base d) = d
   \<and> robotInputPort (Protocol_base d) = d \<and> robotOutputPort (Protocol_base d) = d
   \<and> netconsoleInputPort (Protocol_base d) = d \<and> netconsoleOutputPort (Protocol_base d) = d
   \<and> fmsFrequency (Protocol_base d) = 1
   \<and> radioFrequency (Protocol_base d) = 1
   \<and> robotFrequency (Protocol_base d) = 1
   \<and> fmsSocketType (Protocol_base d) = kSocketTypeUDP
   \<and> radioSocketType (Protocol_base d) = kSocketTypeUDP
   \<and> robotSocketType (Protocol_base d) = kSocketTypeUDP
   \<and> fmsAddress (Protocol_base d) = []
   \<and> fst (generateFMSPacket (Protocol_base d) s) = []
   \<and> fst (generateRadioPacket (Protocol_base d) s) = []
   \<and> fst (generateRobotPacket (Protocol_base d) s) = []"
  by (simp add: Protocol_base_def generateFMSPacket_def generateRadioPacket_def
        generateRobotPacket_def)

text \<open>
  C8. A generate operation changes sent counters only. The state after
  \<open>generateFMSPacket\<close> is the state before it with \<open>m_sentFmsPackets\<close> raised by one,
  after \<open>generateRadioPacket\<close> with \<open>m_sentRadioPackets\<close> raised by one, and after
  \<open>generateRobotPacket\<close> with \<open>m_sentRobotPackets\<close> and \<open>m_sentRobotPacketsSinceConnect\<close>
  raised by one; besides, only \<open>ext\<close> is what the variant's encoder left. So the three
  received counters, \<open>m_recvRobotPacketsSinceConnect\<close> and the configuration, with the
  status of every peer, are as before.
\<close>

theorem generate_frame:
  "snd (generateFMSPacket V s)
     = s\<lparr>m_sentFmsPackets := m_sentFmsPackets s + 1,
          ext := snd (getFMSPacket V (config s) (ext s))\<rparr>
   \<and> snd (generateRadioPacket V s)
     = s\<lparr>m_sentRadioPackets := m_sentRadioPackets s + 1,
          ext := snd (getRadioPacket V (config s) (ext s))\<rparr>
   \<and> snd (generateRobotPacket V s)
     = s\<lparr>m_sentRobotPackets := m_sentRobotPackets s + 1,
          m_sentRobotPacketsSinceConnect := m_sentRobotPacketsSinceConnect s + 1,
          ext := snd (getRobotPacket V (config s) (ext s))\<rparr>
   \<and> config (snd (generateFMSPacket V s)) = config s
   \<and> config (snd (generateRadioPacket V s)) = config s
   \<and> config (snd (generateRobotPacket V s)) = config s
   \<and> m_receivedRobotPackets (snd (generateRobotPacket V s)) = m_receivedRobotPackets s
   \<and> m_recvRobotPacketsSinceConnect (snd (generateRobotPacket V s))
       = m_recvRobotPacketsSinceConnect s"
  by (simp add: generateFMSPacket_def generateRadioPacket_def generateRobotPacket_def
        Let_def split: prod.splits)

text \<open>
  C9. With the decoders of the base class every \<open>read...Packet\<close> call returns false,
  whatever the bytes. The call counts the packet and does nothing else: the
  configuration, and with it the status of every peer, is as before, and the
  since-connect pair is not reset (\<open>m_recvRobotPacketsSinceConnect\<close> is raised by one,
  \<open>m_sentRobotPacketsSinceConnect\<close> is as before).
\<close>

theorem base_decoders_reject:
  "fst (readFMSPacket (Protocol_base d) data s) = False
   \<and> fst (readRadioPacket (Protocol_base d) data s) = False
   \<and> fst (readRobotPacket (Protocol_base d) data s) = False
   \<and> snd (readFMSPacket (Protocol_base d) data s)
       = s\<lparr>m_receivedFmsPackets := m_receivedFmsPackets s + 1\<rparr>
   \<and> snd (readRadioPacket (Protocol_base d) data s)
       = s\<lparr>m_receivedRadioPackets := m_receivedRadioPackets s + 1\<rparr>
   \<and> snd (readRobotPacket (Protocol_base d) data s)
       = s\<lparr>m_receivedRobotPackets := m_receivedRobotPackets s + 1,
            m_recvRobotPacketsSinceConnect := m_recvRobotPacketsSinceConnect s + 1\<rparr>
   \<and> config (snd (readFMSPacket (Protocol_base d) data s)) = config s
   \<and> config (snd (readRadioPacket (Protocol_base d) data s)) = config s
   \<and> config (snd (readRobotPacket (Protocol_base d) data s)) = config s
   \<and> m_sentRobotPacketsSinceConnect (snd (readRobotPacket (Protocol_base d) data s))
       = m_sentRobotPacketsSinceConnect s"
  by (simp add: Protocol_base_def readFMSPacket_def readRadioPacket_def readRobotPacket_def)

text \<open>
  C10. \<open>resetLossCounter\<close> is a total function of the state: from every state it sets
  \<open>recvRobotSinceConnect\<close> and \<open>sentRobotSinceConnect\<close> to 0, it leaves the six session
  counters (and the configuration) as they were, and calling it twice gives the same
  state as calling it once.
\<close>

theorem resetLossCounter_idempotent:
  "m_recvRobotPacketsSinceConnect (resetLossCounter s) = 0
   \<and> m_sentRobotPacketsSinceConnect (resetLossCounter s) = 0
   \<and> m_sentFmsPackets (resetLossCounter s) = m_sentFmsPackets s
   \<and> m_sentRadioPackets (resetLossCounter s) = m_sentRadioPackets s
   \<and> m_sentRobotPackets (resetLossCounter s) = m_sentRobotPackets s
   \<and> m_receivedFmsPackets (resetLossCounter s) = m_receivedFmsPackets s
   \<and> m_receivedRadioPackets (resetLossCounter s) = m_receivedRadioPackets s
   \<and> m_receivedRobotPackets (resetLossCounter s) = m_receivedRobotPackets s
   \<and> config (resetLossCounter s) = config s
   \<and> resetLossCounter (resetLossCounter s) = resetLossCounter s"
  by (simp add: resetLossCounter_def)

end

